theory Spec2Isabelle
  imports Main "HOL-Library.AList"
begin

section \<open>Common types\<close>

text \<open>
  A Go \<^verbatim>\<open>error\<close> value is identified with its message; \<^verbatim>\<open>nil\<close> is \<open>None\<close> of
  \<open>error option\<close>. \<^verbatim>\<open>fmt.Errorf("... %s: %v", a, err)\<close> builds a new error whose message
  is the concatenation.
\<close>

type_synonym error = string

text \<open>\<^verbatim>\<open>comm.MoLingServerType\<close> is a named string type.\<close>

type_synonym MoLingServerType = string

text \<open>
  A call either returns or panics (a Go panic that nothing recovers ends the process).
\<close>

datatype 'a outcome = Returns 'a | Panics string

text \<open>
  Values decoded by \<^verbatim>\<open>json.Unmarshal\<close> into \<^verbatim>\<open>interface{}\<close>. An object is kept as its
  list of members and read with \<open>map_of\<close>. Numbers are \<^verbatim>\<open>float64\<close> in Go; no function
  modelled here reads a number, so the model carries an integer.
\<close>

datatype json =
    JNull
  | JBool bool
  | JNumber int
  | JString string
  | JArray "json list"
  | JObject "(string \<times> json) list"

type_synonym json_object = "(string \<times> json) list"

section \<open>pkg/config: the process-wide configuration\<close>

record MoLingConfig =
  ConfigFile :: string
  BasePath :: string
  Version :: string
  ListenAddr :: string
  Debug :: bool
  Module :: string
  Username :: string
  HomeDir :: string
  SystemInfo :: string
  Description :: string
  Command :: string
  Args :: string
  BaseUrl :: string
  ServerName :: string

text \<open>\<^verbatim>\<open>MoLingConfig.Check\<close>: the body is a single \<^verbatim>\<open>panic("not implemented yet")\<close>.\<close>

definition MoLingConfig_Check :: "MoLingConfig \<Rightarrow> error option outcome" where
  "MoLingConfig_Check cfg = Panics ''not implemented yet''"

text \<open>\<^verbatim>\<open>MoLingConfig.String\<close>: one \<^verbatim>\<open>fmt.Sprintf\<close>; \<^verbatim>\<open>%t\<close> prints a bool.\<close>

definition fmt_bool :: "bool \<Rightarrow> string" where
  "fmt_bool b = (if b then ''true'' else ''false'')"

definition MoLingConfig_String :: "MoLingConfig \<Rightarrow> string" where
  "MoLingConfig_String cfg =
     ''ConfigFile: '' @ ConfigFile cfg @ '', BasePath: '' @ BasePath cfg @
     '', Version: '' @ Version cfg @ '', ListenAddr: '' @ ListenAddr cfg @
     '', Debug: '' @ fmt_bool (Debug cfg) @ '', Module: '' @ Module cfg @
     '', Username: '' @ Username cfg @ '', HomeDir: '' @ HomeDir cfg @
     '', SystemInfo: '' @ SystemInfo cfg"

section \<open>pkg/services: the provider registry\<close>

text \<open>
  \<^verbatim>\<open>serviceLists\<close> is a package-level Go map from provider name to factory. The registry
  state is that map, passed explicitly. \<^verbatim>\<open>RegisterServ\<close> is the assignment
  \<^verbatim>\<open>serviceLists[n] = f\<close>; \<^verbatim>\<open>ServiceList\<close> returns the map itself.
\<close>

definition RegisterServ ::
  "MoLingServerType \<Rightarrow> 'f \<Rightarrow> (MoLingServerType \<rightharpoonup> 'f) \<Rightarrow> (MoLingServerType \<rightharpoonup> 'f)" where
  "RegisterServ n f serviceLists = serviceLists(n \<mapsto> f)"

definition ServiceList :: "(MoLingServerType \<rightharpoonup> 'f) \<Rightarrow> (MoLingServerType \<rightharpoonup> 'f)" where
  "ServiceList serviceLists = serviceLists"

section \<open>The provider contract\<close>

text \<open>
  \<^verbatim>\<open>abstract.Service\<close> is an interface; an instance is an object with private state. The
  model is a record of the instance's state \<open>'s\<close> and of the methods the orchestrator
  calls, each taking the state and returning its result with the state it leaves.
  \<^verbatim>\<open>Name\<close> is constant per instance. The methods are assumed to return; a provider
  method that panics ends the process and is outside these functions.
\<close>

record 's Service =
  Name :: MoLingServerType
  state :: 's
  LoadConfig :: "json_object \<Rightarrow> 's \<Rightarrow> error option \<times> 's"
  Init :: "'s \<Rightarrow> error option \<times> 's"
  Close :: "'s \<Rightarrow> error option"

text \<open>
  \<^verbatim>\<open>ServiceFactory\<close> is \<^verbatim>\<open>func(ctx context.Context) (Service, error)\<close>; \<open>'c\<close> is the
  context handed to every factory of a run.
\<close>

type_synonym ('c, 's) ServiceFactory = "'c \<Rightarrow> error + 's Service"

section \<open>cli/cmd: startup\<close>

text \<open>
  The orchestrator's calls into providers are recorded as events, each tagged with the
  registry key under which the provider is being started. Logging is left out.
\<close>

datatype event =
    FactoryCall MoLingServerType
  | LoadConfigCall MoLingServerType
  | InitCall MoLingServerType

text \<open>
  The three nested tests of \<^verbatim>\<open>initSingleService\<close> before \<^verbatim>\<open>LoadConfig\<close>:
  \<^verbatim>\<open>configJson != nil\<close>, the key \<^verbatim>\<open>string(serviceType)\<close> exists, and its value is a
  \<^verbatim>\<open>map[string]interface{}\<close>. \<open>None\<close> for \<open>configJson\<close> is the nil map left by a missing
  configuration file.
\<close>

definition serviceSettings :: "json_object option \<Rightarrow> MoLingServerType \<Rightarrow> json_object option" where
  "serviceSettings configJson serviceType =
     (case configJson of
        None \<Rightarrow> None
      | Some cfg \<Rightarrow>
          (case map_of cfg serviceType of
             Some (JObject settings) \<Rightarrow> Some settings
           | _ \<Rightarrow> None))"

definition initSingleService ::
  "'c \<Rightarrow> MoLingServerType \<Rightarrow> ('c, 's) ServiceFactory \<Rightarrow> json_object option
     \<Rightarrow> event list \<times> (error + 's Service)" where
  "initSingleService ctx serviceType serviceFactory configJson =
     (case serviceFactory ctx of
        Inl err \<Rightarrow>
          ([FactoryCall serviceType],
           Inl (''failed to create service '' @ serviceType @ '': '' @ err))
      | Inr service \<Rightarrow>
          (case serviceSettings configJson serviceType of
             Some settings \<Rightarrow>
               (case LoadConfig service settings (state service) of
                  (Some err, s1) \<Rightarrow>
                    ([FactoryCall serviceType, LoadConfigCall serviceType],
                     Inl (''failed to load config for service '' @ Name service @ '': '' @ err))
                | (None, s1) \<Rightarrow>
                    (case Init service s1 of
                       (Some err, s2) \<Rightarrow>
                         ([FactoryCall serviceType, LoadConfigCall serviceType, InitCall serviceType],
                          Inl (''failed to initialize service '' @ Name service @ '': '' @ err))
                     | (None, s2) \<Rightarrow>
                         ([FactoryCall serviceType, LoadConfigCall serviceType, InitCall serviceType],
                          Inr (service\<lparr>state := s2\<rparr>))))
           | None \<Rightarrow>
               (case Init service (state service) of
                  (Some err, s2) \<Rightarrow>
                    ([FactoryCall serviceType, InitCall serviceType],
                     Inl (''failed to initialize service '' @ Name service @ '': '' @ err))
                | (None, s2) \<Rightarrow>
                    ([FactoryCall serviceType, InitCall serviceType],
                     Inr (service\<lparr>state := s2\<rparr>)))))"

text \<open>
  \<^verbatim>\<open>strings.Split(s, ",")\<close> of the Go standard library, for a one-character separator:
  the pieces between the separators, so the empty string gives one empty piece.
\<close>

fun strings_Split :: "string \<Rightarrow> char \<Rightarrow> string list" where
  "strings_Split [] sep = [[]]"
| "strings_Split (c # cs) sep =
     (if c = sep then [] # strings_Split cs sep
      else (case strings_Split cs sep of
              [] \<Rightarrow> [[c]]
            | w # ws \<Rightarrow> (c # w) # ws))"

text \<open>
  Modelled from the spec: \<^verbatim>\<open>utils.StringInSlice\<close> is not among the sources. The spec selects
  ``the providers whose name appears in the comma-separated list'', so it is membership
  of the string in the slice.
\<close>

definition StringInSlice :: "string \<Rightarrow> string list \<Rightarrow> bool" where
  "StringInSlice s xs = (s \<in> set xs)"

text \<open>
  The test at the head of the loop body of \<^verbatim>\<open>initServices\<close>: the entry is passed over
  (\<^verbatim>\<open>continue\<close>) when the module list is not empty and does not hold the name.
\<close>

definition skipped :: "string list \<Rightarrow> MoLingServerType \<Rightarrow> bool" where
  "skipped modules serviceName =
     (length modules > 0 \<and> \<not> StringInSlice serviceName modules)"

text \<open>
  The \<^verbatim>\<open>range\<close> loop of \<^verbatim>\<open>initServices\<close>. Go leaves the iteration order of a map
  unspecified; the list of entries is the registry in the order this run visits it.
  \<open>servicesList\<close> grows by \<^verbatim>\<open>append\<close>; \<open>closers\<close> is a Go map keyed by
  \<^verbatim>\<open>service.Name()\<close>, kept as an association list whose entry is the service whose
  \<^verbatim>\<open>Close\<close> method value was stored.
\<close>

type_synonym 's closers = "(string \<times> 's Service) list"

fun initLoop ::
  "'c \<Rightarrow> string list \<Rightarrow> json_object option
     \<Rightarrow> (MoLingServerType \<times> ('c, 's) ServiceFactory) list
     \<Rightarrow> 's Service list \<times> 's closers
     \<Rightarrow> event list \<times> (error + 's Service list \<times> 's closers)" where
  "initLoop ctx modules configJson [] acc = ([], Inr acc)"
| "initLoop ctx modules configJson ((serviceName, serviceFactory) # rest) acc =
     (if skipped modules serviceName then initLoop ctx modules configJson rest acc
      else
        (case initSingleService ctx serviceName serviceFactory configJson of
           (tr, Inl err) \<Rightarrow> (tr, Inl err)
         | (tr, Inr service) \<Rightarrow>
             (case initLoop ctx modules configJson rest
                     (fst acc @ [service], AList.update (Name service) service (snd acc)) of
                (tr', r) \<Rightarrow> (tr @ tr', r))))"

text \<open>
  \<^verbatim>\<open>initServices\<close>. \<open>moduleList\<close> is its first statement: the nil slice unless the
  module string differs from \<^verbatim>\<open>"Browser"\<close>. \<open>cfg\<close> is the package variable
  \<^verbatim>\<open>mlConfig\<close>, whose \<^verbatim>\<open>Module\<close> the flag \<^verbatim>\<open>--module\<close> sets, with default
  \<^verbatim>\<open>"all"\<close>.
\<close>

definition moduleList :: "MoLingConfig \<Rightarrow> string list" where
  "moduleList cfg =
     (if Module cfg \<noteq> ''Browser'' then strings_Split (Module cfg) CHR '','' else [])"

definition initServices ::
  "'c \<Rightarrow> MoLingConfig \<Rightarrow> (MoLingServerType \<times> ('c, 's) ServiceFactory) list
     \<Rightarrow> json_object option
     \<Rightarrow> event list \<times> (error + 's Service list \<times> 's closers)" where
  "initServices ctx cfg entries configJson =
     initLoop ctx (moduleList cfg) configJson entries ([], [])"

section \<open>pkg/services/browser: the browser provider\<close>

subsection \<open>Configuration\<close>

definition BrowserPromptDefault :: string where
  "BrowserPromptDefault =
     ''\<newline>'' @
     ''You are an AI-powered browser automation assistant capable of performing a wide '' @
     ''range of web interactions and debugging tasks. Your capabilities include:\<newline>'' @
     ''\<newline>'' @
     ''1. **Navigation**: Navigate to any specified URL to load web pages.\<newline>'' @
     ''\<newline>'' @
     ''2. **Screenshot Capture**: Take full-page screenshots or capture specific elemen'' @
     ''ts using CSS selectors, with customizable dimensions (default: 1700x1100 pixels).\<newline>'' @
     ''\<newline>'' @
     ''3. **Element Interaction**:\<newline>'' @
     ''   - Click on elements identified by CSS selectors\<newline>'' @
     ''   - Hover over specified elements\<newline>'' @
     ''   - Fill input fields with provided values\<newline>'' @
     ''   - Select options in dropdown menus\<newline>'' @
     ''\<newline>'' @
     ''4. **JavaScript Execution**:\<newline>'' @
     ''   - Run arbitrary JavaScript code in the browser context\<newline>'' @
     ''   - Evaluate scripts and return results\<newline>'' @
     ''\<newline>'' @
     ''5. **Debugging Tools**:\<newline>'' @
     ''   - Enable/disable JavaScript debugging mode\<newline>'' @
     ''   - Set breakpoints at specific script locations (URL + line number + optional '' @
     ''column/condition)\<newline>'' @
     ''   - Remove existing breakpoints by ID\<newline>'' @
     ''   - Pause and resume script execution\<newline>'' @
     ''   - Retrieve current call stack when paused\<newline>'' @
     ''\<newline>'' @
     ''For all actions requiring element selection, you must use precise CSS selectors.'' @
     '' When capturing screenshots, you can specify either the entire page or target sp'' @
     ''ecific elements. For debugging operations, you can precisely control execution f'' @
     ''low and inspect runtime behavior.\<newline>'' @
     ''\<newline>'' @
     ''Please provide clear instructions including:\<newline>'' @
     ''- The specific action you want performed\<newline>'' @
     ''- Required parameters (URLs, selectors, values, etc.)\<newline>'' @
     ''- Any optional parameters (dimensions, conditions, etc.)\<newline>'' @
     ''- Expected outcomes where relevant\<newline>'' @
     ''\<newline>'' @
     ''You should confirm actions before execution when dealing with sensitive operatio'' @
     ''ns or destructive commands. Report back with clear status updates, success/failu'' @
     ''re indicators, and any relevant output or captured data.\<newline>''"

text \<open>
  \<^verbatim>\<open>BrowserConfig\<close>. The time-outs are Go \<^verbatim>\<open>int\<close>s that are only compared with 0.
\<close>

record BrowserConfig =
  PromptFile :: string
  prompt :: string
  Headless :: bool
  Timeout :: int
  Proxy :: string
  UserAgent :: string
  DefaultLanguage :: string
  URLTimeout :: int
  SelectorQueryTimeout :: int
  DataPath :: string
  BrowserDataPath :: string

text \<open>
  What the operating system answers. \<^verbatim>\<open>os.Stat\<close> is read through the three cases the
  code distinguishes: no error, an error for which \<^verbatim>\<open>os.IsNotExist\<close> holds, another
  error. \<^verbatim>\<open>utils.CreateDirectory\<close> is not among the sources and is taken, like the
  standard library calls, as given by the environment.
\<close>

datatype stat_result = Exists | NotExist | StatError error

record os_env =
  Stat :: "string \<Rightarrow> stat_result"
  RemoveAll :: "string \<Rightarrow> error option"
  MkdirAll :: "string \<Rightarrow> error option"
  ReadFile :: "string \<Rightarrow> error + string"
  CreateDirectory :: "string \<Rightarrow> error option"
  Join :: "string list \<Rightarrow> string"
  TempDir :: string

text \<open>
  \<^verbatim>\<open>BrowserConfig.Check\<close> writes \<^verbatim>\<open>cfg.prompt\<close> through the pointer receiver and returns
  an error or nil: the model returns both.
\<close>

definition Check :: "os_env \<Rightarrow> BrowserConfig \<Rightarrow> error option \<times> BrowserConfig" where
  "Check os cfg0 =
     (let cfg = cfg0\<lparr>prompt := BrowserPromptDefault\<rparr> in
      if Timeout cfg \<le> 0 then (Some ''timeout must be greater than 0'', cfg)
      else if URLTimeout cfg \<le> 0 then (Some ''URL timeout must be greater than 0'', cfg)
      else if SelectorQueryTimeout cfg \<le> 0 then
        (Some ''selector Query timeout must be greater than 0'', cfg)
      else if PromptFile cfg \<noteq> '''' then
        (case ReadFile os (PromptFile cfg) of
           Inl err \<Rightarrow>
             (Some (''failed to read prompt file:'' @ PromptFile cfg @ '', error: '' @ err), cfg)
         | Inr read \<Rightarrow> (None, cfg\<lparr>prompt := read\<rparr>))
      else (None, cfg))"

text \<open>
  \<^verbatim>\<open>NewBrowserConfig\<close>: a struct literal; the fields it does not name hold Go's zero
  values (the empty string).
\<close>

definition NewBrowserConfig :: "os_env \<Rightarrow> BrowserConfig" where
  "NewBrowserConfig os =
     \<lparr>PromptFile = '''',
      prompt = '''',
      Headless = False,
      Timeout = 30,
      Proxy = '''',
      UserAgent = ''Mozilla/5.0 (Macintosh; Intel Mac OS X 10_15_7) AppleWebKit/537.36 '' @
                  ''(KHTML, like Gecko) Chrome/134.0.0.0 Safari/537.36'',
      DefaultLanguage = ''en-US'',
      URLTimeout = 10,
      SelectorQueryTimeout = 20,
      DataPath = Join os [TempDir os, ''.moling'', ''data''],
      BrowserDataPath = ''''\<rparr>"

subsection \<open>The server\<close>

text \<open>
  \<^verbatim>\<open>BrowserServer\<close>: its configuration and the two \<^verbatim>\<open>context.CancelFunc\<close> fields, where
  \<open>None\<close> is the nil function value a struct literal leaves. The embedded
  \<^verbatim>\<open>MLService\<close> is modelled on its own below.
\<close>

datatype CancelFunc = AllocCancel | ChromeCancel

record BrowserServer =
  config :: BrowserConfig
  cancelAlloc :: "CancelFunc option"
  cancelChrome :: "CancelFunc option"

text \<open>
  What \<^verbatim>\<open>ctx.Value(key)\<close> holds: nothing, the configuration pointer, a
  \<^verbatim>\<open>zerolog.Logger\<close>, or a value of another type (named as \<^verbatim>\<open>%T\<close> prints it).
\<close>

datatype ctx_value = CtxNil | CtxConfig MoLingConfig | CtxLogger | CtxOther string

record Context =
  MoLingConfigKey :: ctx_value
  MoLingLoggerKey :: ctx_value

fun fmt_T :: "ctx_value \<Rightarrow> string" where
  "fmt_T CtxNil = ''<nil>''"
| "fmt_T (CtxConfig c) = ''*config.MoLingConfig''"
| "fmt_T CtxLogger = ''zerolog.Logger''"
| "fmt_T (CtxOther t) = t"

text \<open>
  \<^verbatim>\<open>NewBrowserServer\<close>. The unchecked type assertion on the configuration panics when the
  context holds no configuration; the checked one on the logger returns an error.
  \<^verbatim>\<open>bs.init()\<close> only fills nil collections of the embedded service and returns nil.
\<close>

definition NewBrowserServer :: "os_env \<Rightarrow> Context \<Rightarrow> (error + BrowserServer) outcome" where
  "NewBrowserServer os ctx =
     (case MoLingConfigKey ctx of
        CtxConfig globalConf \<Rightarrow>
          (let bc = (NewBrowserConfig os)
                      \<lparr>BrowserDataPath := Join os [BasePath globalConf, ''browser''],
                       DataPath := Join os [BasePath globalConf, ''data'']\<rparr>
           in case MoLingLoggerKey ctx of
                CtxLogger \<Rightarrow>
                  Returns (Inr \<lparr>config = bc, cancelAlloc = None, cancelChrome = None\<rparr>)
              | v \<Rightarrow> Returns (Inl (''BrowserServer: invalid logger type: '' @ fmt_T v)))
      | v \<Rightarrow> Panics (''interface conversion: interface {} is '' @ fmt_T v @
                       '', not *config.MoLingConfig''))"

text \<open>
  \<^verbatim>\<open>initBrowser\<close>. Removing a stale \<^verbatim>\<open>SingletonLock\<close> can fail, which is only logged.
\<close>

definition initBrowser :: "os_env \<Rightarrow> string \<Rightarrow> error option" where
  "initBrowser os userDataDir =
     (case Stat os userDataDir of
        StatError err \<Rightarrow> Some (''failed to stat user data directory: '' @ err)
      | Exists \<Rightarrow> None
      | NotExist \<Rightarrow>
          (case MkdirAll os userDataDir of
             Some err \<Rightarrow> Some (''failed to create user data directory: '' @ err)
           | None \<Rightarrow> None))"

text \<open>
  \<^verbatim>\<open>BrowserServer.Init\<close>. Both early returns come before the two assignments of the
  cancel functions. The rest of the body registers one prompt and the browser tools on the
  embedded service and returns nil.
\<close>

definition BrowserServer_Init :: "os_env \<Rightarrow> BrowserServer \<Rightarrow> error option \<times> BrowserServer" where
  "BrowserServer_Init os bs =
     (case initBrowser os (BrowserDataPath (config bs)) of
        Some err \<Rightarrow> (Some (''failed to initialize browser: '' @ err), bs)
      | None \<Rightarrow>
          (case CreateDirectory os (DataPath (config bs)) of
             Some err \<Rightarrow> (Some (''failed to create data directory: '' @ err), bs)
           | None \<Rightarrow>
               (None, bs\<lparr>cancelAlloc := Some AllocCancel, cancelChrome := Some ChromeCancel\<rparr>)))"

text \<open>
  \<^verbatim>\<open>BrowserServer.Close\<close> calls both cancel functions without a nil test; calling a nil
  function value panics. \<open>chromedpCancel\<close> is what \<^verbatim>\<open>chromedp.Cancel(ctx)\<close> returns.
\<close>

definition nil_call :: string where
  "nil_call = ''runtime error: invalid memory address or nil pointer dereference''"

definition BrowserServer_Close :: "error option \<Rightarrow> BrowserServer \<Rightarrow> error option outcome" where
  "BrowserServer_Close chromedpCancel bs =
     (case cancelAlloc bs of
        None \<Rightarrow> Panics nil_call
      | Some f \<Rightarrow>
          (case cancelChrome bs of
             None \<Rightarrow> Panics nil_call
           | Some g \<Rightarrow> Returns chromedpCancel))"

text \<open>
  \<^verbatim>\<open>BrowserServer.Config\<close>. \<open>marshal\<close> is \<^verbatim>\<open>json.Marshal\<close> on the configuration. The
  result is the string returned together with what is written to the log.
\<close>

datatype log_entry = LogError error string | LogInfo string

definition BrowserServer_Config ::
  "(BrowserConfig \<Rightarrow> error + string) \<Rightarrow> BrowserServer \<Rightarrow> log_entry list \<times> string" where
  "BrowserServer_Config marshal bs =
     (case marshal (config bs) of
        Inl err \<Rightarrow> ([LogError err ''failed to marshal config''], ''{}'')
      | Inr cfg \<Rightarrow> ([], cfg))"

definition BrowserServerName :: MoLingServerType where
  "BrowserServerName = ''Browser''"

definition BrowserServer_Name :: "BrowserServer \<Rightarrow> MoLingServerType" where
  "BrowserServer_Name bs = BrowserServerName"

text \<open>
  \<^verbatim>\<open>BrowserServer.LoadConfig\<close>. \<^verbatim>\<open>utils.MergeJSONToStruct\<close> is not among the sources; it
  writes through the pointer and returns an error or nil, and is taken as a parameter.
\<close>

definition BrowserServer_LoadConfig ::
  "(BrowserConfig \<Rightarrow> json_object \<Rightarrow> error option \<times> BrowserConfig) \<Rightarrow> os_env
     \<Rightarrow> json_object \<Rightarrow> BrowserServer \<Rightarrow> error option \<times> BrowserServer" where
  "BrowserServer_LoadConfig MergeJSONToStruct os jsonData bs =
     (case MergeJSONToStruct (config bs) jsonData of
        (Some err, cfg) \<Rightarrow> (Some err, bs\<lparr>config := cfg\<rparr>)
      | (None, cfg) \<Rightarrow>
          (case Check os cfg of (r, cfg') \<Rightarrow> (r, bs\<lparr>config := cfg'\<rparr>)))"

section \<open>pkg/services/abstract: the base service\<close>

text \<open>
  The descriptor and handler types belong to the protocol library: \<open>'r\<close> is
  \<^verbatim>\<open>mcp.Resource\<close>, \<open>'rt\<close> is \<^verbatim>\<open>mcp.ResourceTemplate\<close>, \<open>'p\<close> is \<^verbatim>\<open>mcp.Prompt\<close>,
  \<open>'t\<close> is \<^verbatim>\<open>mcp.Tool\<close> and \<open>'h\<close> stands for the handler function types.
\<close>

record ('p, 'h) PromptEntry =
  PromptVar :: 'p
  HandlerFunc :: 'h

definition Prompt :: "('p, 'h) PromptEntry \<Rightarrow> 'p" where
  "Prompt pe = PromptVar pe"

definition Handler :: "('p, 'h) PromptEntry \<Rightarrow> 'h" where
  "Handler pe = HandlerFunc pe"

text \<open>\<^verbatim>\<open>server.ServerTool\<close> of the protocol library: a tool with its handler.\<close>

record ('t, 'h) ServerTool =
  Tool :: 't
  ToolHandler :: 'h

text \<open>
  \<^verbatim>\<open>MLService\<close>. The three Go maps are association lists read in list order by
  \<^verbatim>\<open>range\<close>: Go leaves that order unspecified, and the list is the map in the order a run
  visits it. The two slices are lists. The lock, the logger and the context carry no data
  read here.
\<close>

record ('r, 'rt, 'p, 't, 'h) MLService =
  resources :: "('r \<times> 'h) list"
  resourcesTemplates :: "('rt \<times> 'h) list"
  prompts :: "('p, 'h) PromptEntry list"
  tools :: "('t, 'h) ServerTool list"
  notificationHandlers :: "(string \<times> 'h) list"
  mlConfig :: MoLingConfig

definition NewMLService :: "MoLingConfig \<Rightarrow> ('r, 'rt, 'p, 't, 'h) MLService" where
  "NewMLService cfg =
     \<lparr>resources = [], resourcesTemplates = [], prompts = [], tools = [],
      notificationHandlers = [], mlConfig = cfg\<rparr>"

definition AddResource ::
  "'r \<Rightarrow> 'h \<Rightarrow> ('r, 'rt, 'p, 't, 'h) MLService \<Rightarrow> ('r, 'rt, 'p, 't, 'h) MLService" where
  "AddResource rs hr mls = mls\<lparr>resources := AList.update rs hr (resources mls)\<rparr>"

definition AddResourceTemplate ::
  "'rt \<Rightarrow> 'h \<Rightarrow> ('r, 'rt, 'p, 't, 'h) MLService \<Rightarrow> ('r, 'rt, 'p, 't, 'h) MLService" where
  "AddResourceTemplate rt hr mls =
     mls\<lparr>resourcesTemplates := AList.update rt hr (resourcesTemplates mls)\<rparr>"

definition AddPrompt ::
  "('p, 'h) PromptEntry \<Rightarrow> ('r, 'rt, 'p, 't, 'h) MLService \<Rightarrow> ('r, 'rt, 'p, 't, 'h) MLService" where
  "AddPrompt pe mls = mls\<lparr>prompts := prompts mls @ [pe]\<rparr>"

definition AddTool ::
  "'t \<Rightarrow> 'h \<Rightarrow> ('r, 'rt, 'p, 't, 'h) MLService \<Rightarrow> ('r, 'rt, 'p, 't, 'h) MLService" where
  "AddTool tool handler mls = mls\<lparr>tools := tools mls @ [\<lparr>Tool = tool, ToolHandler = handler\<rparr>]\<rparr>"

definition AddNotificationHandler ::
  "string \<Rightarrow> 'h \<Rightarrow> ('r, 'rt, 'p, 't, 'h) MLService \<Rightarrow> ('r, 'rt, 'p, 't, 'h) MLService" where
  "AddNotificationHandler name handler mls =
     mls\<lparr>notificationHandlers := AList.update name handler (notificationHandlers mls)\<rparr>"

text \<open>The read accessors return the field.\<close>

definition Resources :: "('r, 'rt, 'p, 't, 'h) MLService \<Rightarrow> ('r \<times> 'h) list" where
  "Resources mls = resources mls"

definition ResourceTemplates :: "('r, 'rt, 'p, 't, 'h) MLService \<Rightarrow> ('rt \<times> 'h) list" where
  "ResourceTemplates mls = resourcesTemplates mls"

definition Prompts :: "('r, 'rt, 'p, 't, 'h) MLService \<Rightarrow> ('p, 'h) PromptEntry list" where
  "Prompts mls = prompts mls"

definition Tools :: "('r, 'rt, 'p, 't, 'h) MLService \<Rightarrow> ('t, 'h) ServerTool list" where
  "Tools mls = tools mls"

definition NotificationHandlers :: "('r, 'rt, 'p, 't, 'h) MLService \<Rightarrow> (string \<times> 'h) list" where
  "NotificationHandlers mls = notificationHandlers mls"

definition MlConfig :: "('r, 'rt, 'p, 't, 'h) MLService \<Rightarrow> MoLingConfig" where
  "MlConfig mls = mlConfig mls"

text \<open>\<^verbatim>\<open>MLService.Config\<close> returns \<^verbatim>\<open>mls.mlConfig.String()\<close>.\<close>

definition MLService_Config :: "('r, 'rt, 'p, 't, 'h) MLService \<Rightarrow> string" where
  "MLService_Config mls = MoLingConfig_String (mlConfig mls)"

text \<open>
  \<^verbatim>\<open>MLService.LoadConfig\<close>. \<^verbatim>\<open>utils.MergeJSONToStruct\<close> is a parameter, as for the browser:
  it returns an error or nil and leaves the configuration it wrote.
\<close>

definition MLService_LoadConfig ::
  "(MoLingConfig \<Rightarrow> json_object \<Rightarrow> error option \<times> MoLingConfig) \<Rightarrow> json_object
     \<Rightarrow> ('r, 'rt, 'p, 't, 'h) MLService \<Rightarrow> error option outcome" where
  "MLService_LoadConfig MergeJSONToStruct jsonData mls =
     (case MergeJSONToStruct (MlConfig mls) jsonData of
        (Some err, cfg) \<Rightarrow> Returns (Some err)
      | (None, cfg) \<Rightarrow> MoLingConfig_Check cfg)"

section \<open>pkg/server: the adapter\<close>

text \<open>
  The calls \<^verbatim>\<open>loadService\<close> makes on the protocol endpoint \<^verbatim>\<open>m.server\<close>, in the order it
  makes them. \<^verbatim>\<open>AddTools\<close> is variadic and is called once with all the tools.
\<close>

datatype ('r, 'rt, 'p, 't, 'h) server_call =
    Server_AddResource 'r 'h
  | Server_AddResourceTemplate 'rt 'h
  | Server_AddTools "('t, 'h) ServerTool list"
  | Server_AddNotificationHandler string 'h
  | Server_AddPrompt 'p 'h

definition loadService ::
  "('r, 'rt, 'p, 't, 'h) MLService \<Rightarrow> ('r, 'rt, 'p, 't, 'h) server_call list" where
  "loadService srv =
     map (\<lambda>(r, rhf). Server_AddResource r rhf) (Resources srv) @
     map (\<lambda>(rt, rthf). Server_AddResourceTemplate rt rthf) (ResourceTemplates srv) @
     [Server_AddTools (Tools srv)] @
     map (\<lambda>(n, nhf). Server_AddNotificationHandler n nhf) (NotificationHandlers srv) @
     map (\<lambda>pe. Server_AddPrompt (Prompt pe) (Handler pe)) (Prompts srv)"

text \<open>\<^verbatim>\<open>MoLingServer.init\<close> loads the services in slice order; \<^verbatim>\<open>loadService\<close> returns nil.\<close>

definition MoLingServer_init ::
  "('r, 'rt, 'p, 't, 'h) MLService list \<Rightarrow> ('r, 'rt, 'p, 't, 'h) server_call list" where
  "MoLingServer_init services = concat (map loadService services)"

text \<open>
  The position of a call in the order Resources, Resource Templates, Tools, Notification
  Handlers, Prompts, and the prompts among the calls.
\<close>

fun step_of :: "('r, 'rt, 'p, 't, 'h) server_call \<Rightarrow> nat" where
  "step_of (Server_AddResource r h) = 0"
| "step_of (Server_AddResourceTemplate rt h) = 1"
| "step_of (Server_AddTools ts) = 2"
| "step_of (Server_AddNotificationHandler n h) = 3"
| "step_of (Server_AddPrompt p h) = 4"

fun exposed_prompts :: "('r, 'rt, 'p, 't, 'h) server_call list \<Rightarrow> ('p \<times> 'h) list" where
  "exposed_prompts [] = []"
| "exposed_prompts (Server_AddPrompt p h # cs) = (p, h) # exposed_prompts cs"
| "exposed_prompts (c # cs) = exposed_prompts cs"

section \<open>cli/cmd: shutdown\<close>

text \<open>
  The body of the goroutine started for one closer: it calls \<^verbatim>\<open>closeFn\<close> and logs the
  result. \<open>result\<close> is what \<^verbatim>\<open>closeFn()\<close> returned.
\<close>

definition closeTask :: "string \<Rightarrow> error option \<Rightarrow> log_entry" where
  "closeTask name result =
     (case result of
        Some err \<Rightarrow> LogError err (''failed to close service '' @ name)
      | None \<Rightarrow> LogInfo (''service '' @ name @ '' closed''))"

text \<open>
  The \<^verbatim>\<open>range\<close> loop of \<^verbatim>\<open>shutdownServices\<close> starts one goroutine per entry of
  \<open>closers\<close> and has no exit but its end. Each goroutine shares only the wait group and
  the logger with the others, so what it does is \<open>closeTask\<close> on its own entry. The
  result pairs each closer's name with the line its goroutine logs once \<^verbatim>\<open>closeFn\<close>
  has returned; the order in which the lines reach the log is the scheduler's.
\<close>

definition closeAll :: "'s closers \<Rightarrow> (string \<times> log_entry) list" where
  "closeAll cl = map (\<lambda>(serviceName, svc). (serviceName, closeTask serviceName (Close svc (state svc)))) cl"

section \<open>Sample providers\<close>

text \<open>Providers without state whose methods all succeed, or whose \<^verbatim>\<open>Init\<close> fails.\<close>

definition okService :: "MoLingServerType \<Rightarrow> unit Service" where
  "okService n =
     \<lparr>Name = n, state = (), LoadConfig = (\<lambda>j s. (None, s)),
      Init = (\<lambda>s. (None, s)), Close = (\<lambda>s. None)\<rparr>"

definition okFactory :: "MoLingServerType \<Rightarrow> (unit, unit) ServiceFactory" where
  "okFactory n = (\<lambda>ctx. Inr (okService n))"

definition failingInitFactory :: "MoLingServerType \<Rightarrow> error \<Rightarrow> (unit, unit) ServiceFactory" where
  "failingInitFactory n e = (\<lambda>ctx. Inr ((okService n)\<lparr>Init := (\<lambda>s. (Some e, s))\<rparr>))"

definition failingCloseService :: "MoLingServerType \<Rightarrow> error \<Rightarrow> unit Service" where
  "failingCloseService n e = (okService n)\<lparr>Close := (\<lambda>s. Some e)\<rparr>"

definition mlConfigWith :: "string \<Rightarrow> MoLingConfig" where
  "mlConfigWith m =
     \<lparr>ConfigFile = ''config/config.json'', BasePath = ''/tmp/.moling'', Version = ''unknown'',
      ListenAddr = '''', Debug = False, Module = m, Username = '''', HomeDir = '''',
      SystemInfo = '''', Description = '''', Command = '''', Args = '''', BaseUrl = '''',
      ServerName = ''''\<rparr>"

text \<open>An operating system on which nothing exists and nothing can be created.\<close>

definition deniedOS :: os_env where
  "deniedOS =
     \<lparr>Stat = (\<lambda>p. NotExist), RemoveAll = (\<lambda>p. None),
      MkdirAll = (\<lambda>p. Some ''permission denied''),
      ReadFile = (\<lambda>p. Inl ''no such file or directory''),
      CreateDirectory = (\<lambda>p. Some ''permission denied''),
      Join = (\<lambda>ps. case ps of [] \<Rightarrow> [] | p # qs \<Rightarrow> p @ concat (map (\<lambda>q. CHR ''/'' # q) qs)),
      TempDir = ''/tmp''\<rparr>"

text \<open>An operating system on which every directory can be created.\<close>

definition plainOS :: os_env where
  "plainOS = deniedOS\<lparr>MkdirAll := (\<lambda>p. None), CreateDirectory := (\<lambda>p. None)\<rparr>"

definition sampleContext :: Context where
  "sampleContext = \<lparr>MoLingConfigKey = CtxConfig (mlConfigWith ''all''), MoLingLoggerKey = CtxLogger\<rparr>"

text \<open>A merge that finds nothing to write, and a base service on the sample configuration.\<close>

definition noopMerge :: "MoLingConfig \<Rightarrow> json_object \<Rightarrow> error option \<times> MoLingConfig" where
  "noopMerge cfg jsonData = (None, cfg)"

definition baseService :: "(string, string, string, string, nat) MLService" where
  "baseService = NewMLService (mlConfigWith ''all'')"

text \<open>
  A provider has no configuration section when the configuration is the nil map or has no
  member under the provider's name.
\<close>

definition no_section :: "json_object option \<Rightarrow> MoLingServerType \<Rightarrow> bool" where
  "no_section configJson serviceType =
     (case configJson of None \<Rightarrow> True | Some cfg \<Rightarrow> map_of cfg serviceType = None)"

text \<open>
  The server \<^verbatim>\<open>NewBrowserServer\<close> builds from the sample context, and a marshaller that
  fails.
\<close>

definition sampleBrowserServer :: BrowserServer where
  "sampleBrowserServer =
     \<lparr>config = (NewBrowserConfig plainOS)
                  \<lparr>BrowserDataPath := ''/tmp/.moling/browser'', DataPath := ''/tmp/.moling/data''\<rparr>,
      cancelAlloc = None, cancelChrome = None\<rparr>"

definition failingMarshal :: "BrowserConfig \<Rightarrow> error + string" where
  "failingMarshal cfg = Inl ''json: unsupported value''"

text \<open>Three prompt entries in the order a provider registers them, and two closers.\<close>

definition samplePrompts :: "(string, nat) PromptEntry list" where
  "samplePrompts =
     [\<lparr>PromptVar = ''browser_prompt'', HandlerFunc = 1\<rparr>,
      \<lparr>PromptVar = ''command_prompt'', HandlerFunc = 2\<rparr>,
      \<lparr>PromptVar = ''filesystem_prompt'', HandlerFunc = 3\<rparr>]"

definition sampleClosers :: "unit closers" where
  "sampleClosers = [(''A'', failingCloseService ''A'' ''busy''), (''B'', okService ''B'')]"

section \<open>Properties\<close>

subsection \<open>The registry\<close>

lemma fold_RegisterServ:
  "fold (\<lambda>(k, f). RegisterServ k f) rs reg n =
     (case map_of (rev rs) n of Some f \<Rightarrow> Some f | None \<Rightarrow> reg n)"
proof (induction rs arbitrary: reg)
  case Nil
  show ?case by simp
next
  case (Cons a rs)
  obtain k f where a: "a = (k, f)" by (cases a)
  have "fold (\<lambda>(k, f). RegisterServ k f) (a # rs) reg n =
        fold (\<lambda>(k, f). RegisterServ k f) rs (RegisterServ k f reg) n"
    by (simp add: a)
  also have "\<dots> = (case map_of (rev rs) n of Some g \<Rightarrow> Some g | None \<Rightarrow> RegisterServ k f reg n)"
    by (rule Cons.IH)
  also have "\<dots> = (case map_of (rev (a # rs)) n of Some g \<Rightarrow> Some g | None \<Rightarrow> reg n)"
    by (simp add: a RegisterServ_def map_add_def split: option.splits)
  finally show ?case .
qed

text \<open>
  C6. Registering a name twice leaves the registry mapping the name to the second factory,
  and the registry is the one in which the first registration never happened. After any
  sequence of registrations, \<^verbatim>\<open>ServiceList()\<close> maps a name to the factory of the last
  registration made for it (the map holds one factory per name).
\<close>

theorem RegisterServ_last_writer_wins:
  "ServiceList (RegisterServ n f2 (RegisterServ n f1 reg)) n = Some f2
   \<and> ServiceList (RegisterServ n f2 (RegisterServ n f1 reg)) = ServiceList (RegisterServ n f2 reg)
   \<and> ServiceList (fold (\<lambda>(k, f). RegisterServ k f) rs reg) n =
       (case map_of (rev rs) n of Some f \<Rightarrow> Some f | None \<Rightarrow> ServiceList reg n)"
  by (simp add: ServiceList_def RegisterServ_def fold_RegisterServ split: option.splits)

subsection \<open>The base service's LoadConfig\<close>

text \<open>
  C10. Whatever the merge does and whatever map is passed (the empty one included), the
  base \<^verbatim>\<open>MLService.LoadConfig\<close> never returns nil: it returns the merge's error, or, when
  the merge succeeds, reaches \<^verbatim>\<open>MoLingConfig.Check\<close> and panics with
  \<^verbatim>\<open>"not implemented yet"\<close>.
\<close>

theorem MLService_LoadConfig_never_nil:
  "MLService_LoadConfig merge jsonData mls \<noteq> Returns None
   \<and> (fst (merge (MlConfig mls) jsonData) = None \<longrightarrow>
        MLService_LoadConfig merge jsonData mls = Panics ''not implemented yet'')"
  by (auto simp: MLService_LoadConfig_def MoLingConfig_Check_def split: prod.splits option.splits)

theorem MLService_LoadConfig_never_nil_witness:
  "fst (noopMerge (MlConfig baseService) []) = None
   \<and> MLService_LoadConfig noopMerge [] baseService = Panics ''not implemented yet''"
  using MLService_LoadConfig_never_nil [of noopMerge "[]" baseService]
  by (simp add: noopMerge_def)

subsection \<open>Startup\<close>

text \<open>
  A prefix of the registry on which the loop succeeds contributes its events and its
  accumulated services; the loop then goes on with the rest.
\<close>

lemma initLoop_append:
  "initLoop ctx ml cfg pre acc = (tr1, Inr acc1) \<Longrightarrow>
   initLoop ctx ml cfg (pre @ rest) acc =
     (case initLoop ctx ml cfg rest acc1 of (tr2, r) \<Rightarrow> (tr1 @ tr2, r))"
proof (induction pre arbitrary: acc tr1)
  case Nil
  then show ?case by (simp split: prod.splits)
next
  case (Cons a pre)
  obtain n f where a: "a = (n, f)" by (cases a)
  show ?case
  proof (cases "skipped ml n")
    case True
    with Cons show ?thesis by (simp add: a)
  next
    case False
    obtain tr r where one: "initSingleService ctx n f cfg = (tr, r)"
      by (cases "initSingleService ctx n f cfg")
    show ?thesis
    proof (cases r)
      case (Inl e)
      with Cons.prems False one show ?thesis by (simp add: a)
    next
      case (Inr svc)
      let ?acc = "(fst acc @ [svc], AList.update (Name svc) svc (snd acc))"
      obtain tr' r' where rest: "initLoop ctx ml cfg pre ?acc = (tr', r')"
        by (cases "initLoop ctx ml cfg pre ?acc")
      from Cons.prems False one Inr rest have eq: "tr1 = tr @ tr'" "r' = Inr acc1"
        by (simp_all add: a)
      from rest eq have "initLoop ctx ml cfg pre ?acc = (tr', Inr acc1)" by simp
      from Cons.IH [OF this] False one Inr eq show ?thesis
        by (simp add: a split: prod.splits)
    qed
  qed
qed

lemma initSingleService_error_cases:
  assumes "initSingleService ctx b fb cfg = (trb, Inl e)"
  shows "(\<exists>err. fb ctx = Inl err \<and> e = ''failed to create service '' @ b @ '': '' @ err)
       \<or> (\<exists>svc settings err s. fb ctx = Inr svc \<and> serviceSettings cfg b = Some settings
             \<and> LoadConfig svc settings (state svc) = (Some err, s)
             \<and> e = ''failed to load config for service '' @ Name svc @ '': '' @ err)
       \<or> (\<exists>svc s0 err s. fb ctx = Inr svc \<and> Init svc s0 = (Some err, s)
             \<and> e = ''failed to initialize service '' @ Name svc @ '': '' @ err)"
  using assms unfolding initSingleService_def
  by (auto split: sum.splits option.splits prod.splits)

text \<open>
  C1, at the flag's default. With \<^verbatim>\<open>Module = "all"\<close> the test
  \<^verbatim>\<open>mlConfig.Module != "Browser"\<close> holds, the module list is \<^verbatim>\<open>["all"]\<close>, and every
  provider of the registry Browser, Command, FileSystem is passed over: no factory is
  called and the run starts with no service. With \<^verbatim>\<open>Module = "Browser"\<close> the module list
  stays nil and a provider that was not named, Command, has its factory called.
\<close>

theorem initServices_module_all:
  "initServices ctx (mc\<lparr>Module := ''all''\<rparr>)
      [(''Browser'', fb), (''Command'', fc), (''FileSystem'', ff)] cfg = ([], Inr ([], []))
   \<and> hd (fst (initServices ctx (mc\<lparr>Module := ''Browser''\<rparr>) [(''Command'', fc)] cfg))
       = FactoryCall ''Command''"
  by (simp add: initServices_def moduleList_def skipped_def StringInSlice_def initSingleService_def
         split: sum.splits option.splits prod.splits)

text \<open>
  C2, as the code has it. Let the loop succeed on the entries before \<open>b\<close> (every
  selected provider there was created, configured and initialised), let \<open>b\<close> be
  selected, and let \<^verbatim>\<open>initSingleService\<close> fail on it with \<open>e\<close>. Then the whole of
  \<^verbatim>\<open>initServices\<close> returns \<open>e\<close> with the events of the prefix and of \<open>b\<close> only,
  whatever entries follow: no later provider is constructed or initialised. The error
  \<open>e\<close> is not the provider's own: it is the message \<^verbatim>\<open>fmt.Errorf\<close> builds around the
  error of the factory, of \<^verbatim>\<open>LoadConfig\<close> or of \<^verbatim>\<open>Init\<close>.
\<close>

theorem initServices_fail_fast:
  assumes pre: "initServices ctx mc pre cfg = (tr1, Inr started)"
      and sel: "\<not> skipped (moduleList mc) b"
      and fail: "initSingleService ctx b fb cfg = (trb, Inl e)"
  shows "initServices ctx mc (pre @ (b, fb) # post) cfg = (tr1 @ trb, Inl e)
       \<and> ((\<exists>err. fb ctx = Inl err \<and> e = ''failed to create service '' @ b @ '': '' @ err)
          \<or> (\<exists>svc settings err s. fb ctx = Inr svc \<and> serviceSettings cfg b = Some settings
                \<and> LoadConfig svc settings (state svc) = (Some err, s)
                \<and> e = ''failed to load config for service '' @ Name svc @ '': '' @ err)
          \<or> (\<exists>svc s0 err s. fb ctx = Inr svc \<and> Init svc s0 = (Some err, s)
                \<and> e = ''failed to initialize service '' @ Name svc @ '': '' @ err))"
proof
  from pre have "initLoop ctx (moduleList mc) cfg pre ([], []) = (tr1, Inr started)"
    by (simp add: initServices_def)
  from initLoop_append [OF this, of "(b, fb) # post"] sel fail
  show "initServices ctx mc (pre @ (b, fb) # post) cfg = (tr1 @ trb, Inl e)"
    by (simp add: initServices_def)
next
  from initSingleService_error_cases [OF fail]
  show "(\<exists>err. fb ctx = Inl err \<and> e = ''failed to create service '' @ b @ '': '' @ err)
          \<or> (\<exists>svc settings err s. fb ctx = Inr svc \<and> serviceSettings cfg b = Some settings
                \<and> LoadConfig svc settings (state svc) = (Some err, s)
                \<and> e = ''failed to load config for service '' @ Name svc @ '': '' @ err)
          \<or> (\<exists>svc s0 err s. fb ctx = Inr svc \<and> Init svc s0 = (Some err, s)
                \<and> e = ''failed to initialize service '' @ Name svc @ '': '' @ err)" .
qed

lemma sample_prefix_starts: "initServices () (mlConfigWith ''A,B,C'') [(''A'', okFactory ''A'')] None
             = ([FactoryCall ''A'', InitCall ''A''], Inr ([okService ''A''], [(''A'', okService ''A'')]))"
  by (simp add: initServices_def moduleList_def mlConfigWith_def skipped_def StringInSlice_def
        initSingleService_def okFactory_def okService_def serviceSettings_def)

lemma sample_B_selected: "\<not> skipped (moduleList (mlConfigWith ''A,B,C'')) ''B''"
  by (simp add: moduleList_def mlConfigWith_def skipped_def StringInSlice_def)

lemma sample_B_fails: "initSingleService () ''B'' (failingInitFactory ''B'' ''boom'') None
             = ([FactoryCall ''B'', InitCall ''B''], Inl ''failed to initialize service B: boom'')"
  by (simp add: initSingleService_def failingInitFactory_def okService_def serviceSettings_def)

theorem initServices_fail_fast_witness:
  "initServices () (mlConfigWith ''A,B,C'') [(''A'', okFactory ''A'')] None
       = ([FactoryCall ''A'', InitCall ''A''], Inr ([okService ''A''], [(''A'', okService ''A'')]))
   \<and> \<not> skipped (moduleList (mlConfigWith ''A,B,C'')) ''B''
   \<and> initSingleService () ''B'' (failingInitFactory ''B'' ''boom'') None
       = ([FactoryCall ''B'', InitCall ''B''], Inl ''failed to initialize service B: boom'')
   \<and> initServices () (mlConfigWith ''A,B,C'')
        ([(''A'', okFactory ''A'')] @ (''B'', failingInitFactory ''B'' ''boom'') # [(''C'', okFactory ''C'')]) None
       = ([FactoryCall ''A'', InitCall ''A''] @ [FactoryCall ''B'', InitCall ''B''],
          Inl ''failed to initialize service B: boom'')"
  using initServices_fail_fast [OF sample_prefix_starts sample_B_selected sample_B_fails, of "[(''C'', okFactory ''C'')]"] sample_prefix_starts sample_B_selected sample_B_fails
  by simp

text \<open>
  C2 as stated fails on the error: provider B's \<^verbatim>\<open>Init\<close> returns \<^verbatim>\<open>boom\<close>, and the error
  that \<^verbatim>\<open>initServices\<close> hands to the entry point is another one.
\<close>

theorem fail_fast_error_is_wrapped:
  "snd (initServices () (mlConfigWith ''A,B,C'')
         [(''A'', okFactory ''A''), (''B'', failingInitFactory ''B'' ''boom''), (''C'', okFactory ''C'')] None)
     = Inl ''failed to initialize service B: boom''
   \<and> snd (initServices () (mlConfigWith ''A,B,C'')
         [(''A'', okFactory ''A''), (''B'', failingInitFactory ''B'' ''boom''), (''C'', okFactory ''C'')] None)
     \<noteq> Inl ''boom''"
  by (simp add: initServices_def moduleList_def mlConfigWith_def skipped_def StringInSlice_def
        initSingleService_def okFactory_def failingInitFactory_def okService_def serviceSettings_def)

subsection \<open>Configuration sections\<close>

lemma no_section_settings: "no_section cfg t \<Longrightarrow> serviceSettings cfg t = None"
  by (simp add: no_section_def serviceSettings_def split: option.splits)

lemma initSingleService_no_LoadConfigCall:
  "serviceSettings cfg n = None \<or> t \<noteq> n \<Longrightarrow>
   LoadConfigCall t \<notin> set (fst (initSingleService ctx n f cfg))"
  by (cases "t = n")
     (simp_all add: initSingleService_def split: sum.split option.split prod.split)

lemma initSingleService_LoadConfigCall:
  assumes "LoadConfigCall t \<in> set (fst (initSingleService ctx n f cfg))"
  shows "t = n \<and> serviceSettings cfg n \<noteq> None"
proof (rule ccontr)
  assume "\<not> (t = n \<and> serviceSettings cfg n \<noteq> None)"
  then have "serviceSettings cfg n = None \<or> t \<noteq> n" by (cases "t = n") simp_all
  from initSingleService_no_LoadConfigCall [OF this, of ctx f] assms show False by simp
qed

lemma initLoop_LoadConfigCall:
  "LoadConfigCall t \<in> set (fst (initLoop ctx ml cfg entries acc)) \<Longrightarrow>
   serviceSettings cfg t \<noteq> None"
proof (induction entries arbitrary: acc)
  case Nil
  then show ?case by simp
next
  case (Cons a entries)
  obtain n f where a: "a = (n, f)" by (cases a)
  show ?case
  proof (cases "skipped ml n")
    case True
    with Cons show ?thesis by (simp add: a)
  next
    case False
    obtain tr r where one: "initSingleService ctx n f cfg = (tr, r)"
      by (cases "initSingleService ctx n f cfg")
    show ?thesis
    proof (cases r)
      case (Inl e)
      with Cons.prems False one have "LoadConfigCall t \<in> set (fst (initSingleService ctx n f cfg))"
        by (simp add: a)
      from initSingleService_LoadConfigCall [OF this] show ?thesis by simp
    next
      case (Inr svc)
      let ?acc = "(fst acc @ [svc], AList.update (Name svc) svc (snd acc))"
      obtain tr' r' where rest: "initLoop ctx ml cfg entries ?acc = (tr', r')"
        by (cases "initLoop ctx ml cfg entries ?acc")
      from Cons.prems False one Inr rest have "LoadConfigCall t \<in> set (tr @ tr')"
        by (simp add: a)
      with rest
      have "LoadConfigCall t \<in> set tr \<or> LoadConfigCall t \<in> set (fst (initLoop ctx ml cfg entries ?acc))"
        by auto
      then show ?thesis
      proof
        assume "LoadConfigCall t \<in> set tr"
        with one have "LoadConfigCall t \<in> set (fst (initSingleService ctx n f cfg))" by simp
        from initSingleService_LoadConfigCall [OF this] show ?thesis by simp
      next
        assume "LoadConfigCall t \<in> set (fst (initLoop ctx ml cfg entries ?acc))"
        then show ?thesis by (rule Cons.IH)
      qed
    qed
  qed
qed

lemma Check_default: "fst (Check os (NewBrowserConfig os)) = None"
  by (simp add: Check_def NewBrowserConfig_def Let_def)

text \<open>
  C7. When the loaded configuration has no section for a provider, no run of
  \<^verbatim>\<open>initServices\<close> calls that provider's \<^verbatim>\<open>LoadConfig\<close>, whatever the registry and the
  module selection. The configuration \<^verbatim>\<open>NewBrowserConfig\<close> builds (Timeout 30, URLTimeout
  10, SelectorQueryTimeout 20, empty PromptFile) passes \<^verbatim>\<open>Check\<close>, which returns nil on
  it.
\<close>

theorem no_section_no_LoadConfig:
  assumes "no_section configJson t"
  shows "LoadConfigCall t \<notin> set (fst (initServices ctx mc entries configJson))
       \<and> fst (Check os (NewBrowserConfig os)) = None
       \<and> Timeout (NewBrowserConfig os) = 30 \<and> URLTimeout (NewBrowserConfig os) = 10
       \<and> SelectorQueryTimeout (NewBrowserConfig os) = 20 \<and> PromptFile (NewBrowserConfig os) = ''''"
proof -
  from assms have none: "serviceSettings configJson t = None" by (rule no_section_settings)
  have "LoadConfigCall t \<notin> set (fst (initServices ctx mc entries configJson))"
  proof
    assume "LoadConfigCall t \<in> set (fst (initServices ctx mc entries configJson))"
    then have "LoadConfigCall t \<in> set (fst (initLoop ctx (moduleList mc) configJson entries ([], [])))"
      by (simp add: initServices_def)
    from initLoop_LoadConfigCall [OF this] none show False by simp
  qed
  moreover have "Timeout (NewBrowserConfig os) = 30 \<and> URLTimeout (NewBrowserConfig os) = 10
       \<and> SelectorQueryTimeout (NewBrowserConfig os) = 20 \<and> PromptFile (NewBrowserConfig os) = ''''"
    by (simp add: NewBrowserConfig_def)
  ultimately show ?thesis using Check_default by blast
qed


lemma sample_no_section: "no_section (Some [(''Command'', JObject [])]) ''Browser''"
  by (simp add: no_section_def)

theorem no_section_no_LoadConfig_witness:
  "no_section (Some [(''Command'', JObject [])]) ''Browser''
   \<and> fst (initServices () (mlConfigWith ''Command,Browser'')
            [(''Browser'', okFactory ''Browser''), (''Command'', okFactory ''Command'')]
            (Some [(''Command'', JObject [])]))
       = [FactoryCall ''Browser'', InitCall ''Browser'',
          FactoryCall ''Command'', LoadConfigCall ''Command'', InitCall ''Command'']
   \<and> LoadConfigCall ''Browser'' \<notin> set (fst (initServices () (mlConfigWith ''Command,Browser'')
            [(''Browser'', okFactory ''Browser''), (''Command'', okFactory ''Command'')]
            (Some [(''Command'', JObject [])])))
   \<and> fst (Check deniedOS (NewBrowserConfig deniedOS)) = None"
  using no_section_no_LoadConfig [OF sample_no_section, of "()" "mlConfigWith ''Command,Browser''"
     "[(''Browser'', okFactory ''Browser''), (''Command'', okFactory ''Command'')]" deniedOS]
    sample_no_section
  by (simp add: initServices_def moduleList_def mlConfigWith_def skipped_def StringInSlice_def
        initSingleService_def okFactory_def okService_def serviceSettings_def)




subsection \<open>Closing the browser server\<close>

text \<open>
  Every closer \<^verbatim>\<open>initServices\<close> returns was stored after \<^verbatim>\<open>initSingleService\<close> returned
  its service, which it does only when \<^verbatim>\<open>Init\<close> returned nil.
\<close>

lemma set_AList_update:
  "(k, v) \<in> set (AList.update k' v' al) \<Longrightarrow> (k, v) = (k', v') \<or> (k, v) \<in> set al"
  by (induction al) (auto split: if_splits)

lemma initLoop_closers:
  "initLoop ctx ml cfg entries acc = (tr, Inr (svcs, cl)) \<Longrightarrow> (k, svc) \<in> set cl \<Longrightarrow>
   (k, svc) \<in> set (snd acc) \<or>
   (\<exists>n f tr1. (n, f) \<in> set entries \<and> initSingleService ctx n f cfg = (tr1, Inr svc))"
proof (induction entries arbitrary: acc tr)
  case Nil
  then show ?case by auto
next
  case (Cons a entries)
  obtain n f where a: "a = (n, f)" by (cases a)
  show ?case
  proof (cases "skipped ml n")
    case True
    with Cons.prems have "initLoop ctx ml cfg entries acc = (tr, Inr (svcs, cl))" by (simp add: a)
    from Cons.IH [OF this Cons.prems(2)] show ?thesis by auto
  next
    case False
    obtain t1 r where one: "initSingleService ctx n f cfg = (t1, r)"
      by (cases "initSingleService ctx n f cfg")
    show ?thesis
    proof (cases r)
      case (Inl e)
      with Cons.prems False one show ?thesis by (simp add: a)
    next
      case (Inr s1)
      let ?acc = "(fst acc @ [s1], AList.update (Name s1) s1 (snd acc))"
      obtain tr' r' where rest: "initLoop ctx ml cfg entries ?acc = (tr', r')"
        by (cases "initLoop ctx ml cfg entries ?acc")
      from Cons.prems(1) False one Inr rest have "r' = Inr (svcs, cl)" by (simp add: a)
      with rest have "initLoop ctx ml cfg entries ?acc = (tr', Inr (svcs, cl))" by simp
      from Cons.IH [OF this Cons.prems(2)]
      have "(k, svc) \<in> set (AList.update (Name s1) s1 (snd acc)) \<or>
            (\<exists>n f tr1. (n, f) \<in> set entries \<and> initSingleService ctx n f cfg = (tr1, Inr svc))"
        by simp
      then show ?thesis
      proof
        assume "(k, svc) \<in> set (AList.update (Name s1) s1 (snd acc))"
        from set_AList_update [OF this] show ?thesis
        proof
          assume "(k, svc) = (Name s1, s1)"
          with one Inr have "initSingleService ctx n f cfg = (t1, Inr svc)" by simp
          then show ?thesis by (auto simp: a)
        next
          assume "(k, svc) \<in> set (snd acc)"
          then show ?thesis by simp
        qed
      next
        assume "\<exists>n f tr1. (n, f) \<in> set entries \<and> initSingleService ctx n f cfg = (tr1, Inr svc)"
        then show ?thesis by (auto simp: a)
      qed
    qed
  qed
qed

lemma initSingleService_started:
  "initSingleService ctx n f cfg = (tr, Inr svc) \<Longrightarrow>
   \<exists>svc0 s0. f ctx = Inr svc0 \<and> Init svc0 s0 = (None, state svc) \<and> svc = svc0\<lparr>state := state svc\<rparr>"
  unfolding initSingleService_def
  by (cases "f ctx") (auto split: option.splits prod.splits)

text \<open>
  C3, as the code has it. When \<^verbatim>\<open>Init\<close> has run to completion and returned nil, both
  cancel functions are assigned, and \<^verbatim>\<open>BrowserServer.Close\<close> does not crash: it returns
  what \<^verbatim>\<open>chromedp.Cancel\<close> returns, an error value or nil. And every closer that startup
  hands to shutdown belongs to a provider whose \<^verbatim>\<open>Init\<close> returned nil.
\<close>

theorem BrowserServer_Close_after_Init:
  "(BrowserServer_Init os bs = (None, bs') \<longrightarrow>
      cancelAlloc bs' \<noteq> None \<and> cancelChrome bs' \<noteq> None \<and> BrowserServer_Close r bs' = Returns r)
   \<and> (initServices ctx mc entries cfg = (tr, Inr (svcs, cl)) \<and> (k, svc) \<in> set cl \<longrightarrow>
        (\<exists>n f svc0 s0. (n, f) \<in> set entries \<and> f ctx = Inr svc0
            \<and> Init svc0 s0 = (None, state svc) \<and> svc = svc0\<lparr>state := state svc\<rparr>))"
proof (intro conjI impI)
  assume "BrowserServer_Init os bs = (None, bs')"
  then show "cancelAlloc bs' \<noteq> None" "cancelChrome bs' \<noteq> None" "BrowserServer_Close r bs' = Returns r"
    by (auto simp: BrowserServer_Init_def BrowserServer_Close_def split: option.splits)
next
  assume h: "initServices ctx mc entries cfg = (tr, Inr (svcs, cl)) \<and> (k, svc) \<in> set cl"
  then have loop: "initLoop ctx (moduleList mc) cfg entries ([], []) = (tr, Inr (svcs, cl))"
    by (simp add: initServices_def)
  from h have mem: "(k, svc) \<in> set cl" by simp
  from initLoop_closers [OF loop mem]
  obtain n f tr1 where nf: "(n, f) \<in> set entries" "initSingleService ctx n f cfg = (tr1, Inr svc)"
    by auto
  from initSingleService_started [OF nf(2)] nf(1)
  show "\<exists>n f svc0 s0. (n, f) \<in> set entries \<and> f ctx = Inr svc0
            \<and> Init svc0 s0 = (None, state svc) \<and> svc = svc0\<lparr>state := state svc\<rparr>"
    by blast
qed

lemma sample_New_denied: "NewBrowserServer deniedOS sampleContext = Returns (Inr sampleBrowserServer)"
  by (simp add: NewBrowserServer_def sampleContext_def sampleBrowserServer_def plainOS_def deniedOS_def
      mlConfigWith_def NewBrowserConfig_def)

theorem BrowserServer_Close_after_Init_witness:
  "BrowserServer_Init plainOS sampleBrowserServer =
      (None, sampleBrowserServer\<lparr>cancelAlloc := Some AllocCancel, cancelChrome := Some ChromeCancel\<rparr>)
   \<and> BrowserServer_Close (Some ''invalid context'')
        (sampleBrowserServer\<lparr>cancelAlloc := Some AllocCancel, cancelChrome := Some ChromeCancel\<rparr>)
      = Returns (Some ''invalid context'')
   \<and> initServices () (mlConfigWith ''A,B,C'') [(''A'', okFactory ''A'')] None
     = ([FactoryCall ''A'', InitCall ''A''], Inr ([okService ''A''], [(''A'', okService ''A'')]))
   \<and> (''A'', okService ''A'') \<in> set [(''A'', okService ''A'')]
   \<and> (\<exists>n f svc0 s0. (n, f) \<in> set [(''A'', okFactory ''A'')] \<and> f () = Inr svc0
            \<and> Init svc0 s0 = (None, state (okService ''A'')) \<and> okService ''A'' = svc0\<lparr>state := state (okService ''A'')\<rparr>)"
  using BrowserServer_Close_after_Init [of plainOS sampleBrowserServer
      "sampleBrowserServer\<lparr>cancelAlloc := Some AllocCancel, cancelChrome := Some ChromeCancel\<rparr>"
      "Some ''invalid context''" "()" "mlConfigWith ''A,B,C''" "[(''A'', okFactory ''A'')]" None
      "[FactoryCall ''A'', InitCall ''A'']" "[okService ''A'']" "[(''A'', okService ''A'')]" "''A''" "okService ''A''"]
    sample_prefix_starts
  by (simp add: BrowserServer_Init_def initBrowser_def plainOS_def deniedOS_def sampleBrowserServer_def)

text \<open>
  C3 as stated fails: on the server \<^verbatim>\<open>NewBrowserServer\<close> returns, \<^verbatim>\<open>Init\<close> fails in
  \<^verbatim>\<open>initBrowser\<close> before the cancel functions are assigned, and \<^verbatim>\<open>Close\<close> on that
  server panics.
\<close>

theorem BrowserServer_Close_panics_after_failed_Init:
  "NewBrowserServer deniedOS sampleContext = Returns (Inr sampleBrowserServer)
   \<and> BrowserServer_Init deniedOS sampleBrowserServer =
       (Some ''failed to initialize browser: failed to create user data directory: permission denied'',
        sampleBrowserServer)
   \<and> BrowserServer_Close None sampleBrowserServer = Panics nil_call"
  by (simp add: sample_New_denied)
     (simp add: BrowserServer_Init_def initBrowser_def deniedOS_def sampleBrowserServer_def
        BrowserServer_Close_def)

subsection \<open>The adapter\<close>

lemma fold_AddPrompt: "prompts (fold AddPrompt pes srv) = prompts srv @ pes"
  by (induction pes arbitrary: srv) (simp_all add: AddPrompt_def)

lemma exposed_prompts_append:
  "exposed_prompts (xs @ ys) = exposed_prompts xs @ exposed_prompts ys"
  by (induction xs rule: exposed_prompts.induct) simp_all

lemma exposed_prompts_none:
  "\<forall>c \<in> set cs. step_of c \<noteq> 4 \<Longrightarrow> exposed_prompts cs = []"
  by (induction cs rule: exposed_prompts.induct) simp_all

lemma exposed_prompts_map:
  "exposed_prompts (map (\<lambda>pe. Server_AddPrompt (Prompt pe) (Handler pe)) pes) =
     map (\<lambda>pe. (PromptVar pe, HandlerFunc pe)) pes"
  by (induction pes) (simp_all add: Prompt_def Handler_def)

lemma sorted_same_step:
  "\<forall>x \<in> set xs. f x = (k::nat) \<Longrightarrow> sorted (map f xs)"
  by (induction xs) auto

lemma sorted_steps:
  "sorted (map step_of (loadService srv))"
proof -
  have r: "sorted (map (step_of \<circ> (\<lambda>(x, y). Server_AddResource x y)) (Resources srv))"
    by (rule sorted_same_step [where k = 0]) auto
  have rt: "sorted (map (step_of \<circ> (\<lambda>(x, y). Server_AddResourceTemplate x y)) (ResourceTemplates srv))"
    by (rule sorted_same_step [where k = 1]) auto
  have nh: "sorted (map (step_of \<circ> (\<lambda>(x, y). Server_AddNotificationHandler x y)) (NotificationHandlers srv))"
    by (rule sorted_same_step [where k = 3]) auto
  have p: "sorted (map (step_of \<circ> (\<lambda>pe. Server_AddPrompt (Prompt pe) (Handler pe))) (Prompts srv))"
    by (rule sorted_same_step [where k = 4]) auto
  show ?thesis
    using r rt nh p by (auto simp: loadService_def sorted_append split: prod.splits)
qed

lemma exposed_loadService:
  "exposed_prompts (loadService srv) = map (\<lambda>pe. (PromptVar pe, HandlerFunc pe)) (Prompts srv)"
  by (simp add: loadService_def exposed_prompts_append exposed_prompts_map
        exposed_prompts_none split_def)

lemma filter_step_same:
  "\<forall>x \<in> set xs. step_of (g x) = k \<Longrightarrow> filter (\<lambda>c. step_of c = k) (map g xs) = map g xs"
  by (induction xs) auto

lemma filter_step_other:
  "\<forall>x \<in> set xs. step_of (g x) \<noteq> k \<Longrightarrow> filter (\<lambda>c. step_of c = k) (map g xs) = []"
  by (induction xs) auto

lemma loadService_steps:
  "filter (\<lambda>c. step_of c = 0) (loadService srv) = map (\<lambda>(r, h). Server_AddResource r h) (Resources srv)"
  "filter (\<lambda>c. step_of c = 1) (loadService srv) =
     map (\<lambda>(rt, h). Server_AddResourceTemplate rt h) (ResourceTemplates srv)"
  "filter (\<lambda>c. step_of c = 2) (loadService srv) = [Server_AddTools (Tools srv)]"
  "filter (\<lambda>c. step_of c = 3) (loadService srv) =
     map (\<lambda>(n, h). Server_AddNotificationHandler n h) (NotificationHandlers srv)"
  by (simp_all add: loadService_def filter_step_same filter_step_other split_def)

text \<open>
  C8. The calls of \<^verbatim>\<open>loadService\<close> on the endpoint come in the order Resources, Resource
  Templates, Tools, Notification Handlers, Prompts (their steps never decrease along the
  list), each step copies the whole of the provider's collection, and the prompts reach the
  endpoint in the order of the provider's slice, which is the order of its
  \<^verbatim>\<open>AddPrompt\<close> calls.
\<close>

theorem loadService_order:
  "sorted (map step_of (loadService srv))
   \<and> filter (\<lambda>c. step_of c = 0) (loadService srv) =
       map (\<lambda>(r, h). Server_AddResource r h) (Resources srv)
   \<and> filter (\<lambda>c. step_of c = 1) (loadService srv) =
       map (\<lambda>(rt, h). Server_AddResourceTemplate rt h) (ResourceTemplates srv)
   \<and> filter (\<lambda>c. step_of c = 2) (loadService srv) = [Server_AddTools (Tools srv)]
   \<and> filter (\<lambda>c. step_of c = 3) (loadService srv) =
       map (\<lambda>(n, h). Server_AddNotificationHandler n h) (NotificationHandlers srv)
   \<and> exposed_prompts (loadService srv) = map (\<lambda>pe. (PromptVar pe, HandlerFunc pe)) (Prompts srv)
   \<and> exposed_prompts (loadService (fold AddPrompt pes srv)) =
       map (\<lambda>pe. (PromptVar pe, HandlerFunc pe)) (Prompts srv @ pes)"
  using sorted_steps [of srv] loadService_steps [of srv] exposed_loadService [of srv]
    exposed_loadService [of "fold AddPrompt pes srv"]
  by (simp add: Prompts_def fold_AddPrompt)

theorem loadService_order_witness:
  "map step_of (loadService (AddNotificationHandler ''n'' 9 (AddTool ''t'' 8 (AddResource ''r'' 7
       (fold AddPrompt samplePrompts baseService))))) = [0, 2, 3, 4, 4, 4]
   \<and> exposed_prompts (loadService (fold AddPrompt samplePrompts baseService)) =
       [(''browser_prompt'', 1), (''command_prompt'', 2), (''filesystem_prompt'', 3)]"
  using loadService_order [of baseService samplePrompts]
  by (simp add: samplePrompts_def baseService_def NewMLService_def Prompts_def loadService_def
        AddPrompt_def AddTool_def AddResource_def AddNotificationHandler_def Resources_def
        ResourceTemplates_def Tools_def NotificationHandlers_def Prompt_def Handler_def)

subsection \<open>Shutdown\<close>

text \<open>
  C5. Every entry of \<open>closers\<close> gets its task. A provider whose \<^verbatim>\<open>Close\<close> returns nil is
  logged as closed and one whose \<^verbatim>\<open>Close\<close> returns an error has that error logged under
  its own name, whatever the other providers' \<^verbatim>\<open>Close\<close> return: an error goes to the log
  and nowhere else.
\<close>

theorem shutdown_isolating:
  "map fst (closeAll cl) = map fst cl
   \<and> (\<forall>b svc. (b, svc) \<in> set cl \<and> Close svc (state svc) = None \<longrightarrow>
         (b, LogInfo (''service '' @ b @ '' closed'')) \<in> set (closeAll cl))
   \<and> (\<forall>a svc err. (a, svc) \<in> set cl \<and> Close svc (state svc) = Some err \<longrightarrow>
         (a, LogError err (''failed to close service '' @ a)) \<in> set (closeAll cl))"
  by (force simp: closeAll_def closeTask_def split_def image_iff)

theorem shutdown_isolating_witness:
  "(''A'', failingCloseService ''A'' ''busy'') \<in> set sampleClosers
   \<and> Close (failingCloseService ''A'' ''busy'') (state (failingCloseService ''A'' ''busy'')) = Some ''busy''
   \<and> (''B'', okService ''B'') \<in> set sampleClosers
   \<and> Close (okService ''B'') (state (okService ''B'')) = None
   \<and> closeAll sampleClosers =
        [(''A'', LogError ''busy'' ''failed to close service A''), (''B'', LogInfo ''service B closed'')]"
  using shutdown_isolating [of sampleClosers]
  by (simp add: sampleClosers_def closeAll_def closeTask_def failingCloseService_def okService_def)

subsection \<open>Config\<close>

text \<open>
  C9. \<^verbatim>\<open>BrowserServer.Config\<close> returns a string in every case: the marshalled
  configuration, or \<^verbatim>\<open>{}\<close> with the error logged when marshalling fails. The base
  \<^verbatim>\<open>MLService.Config\<close> has no error path: for every state of the configuration it
  returns the text that carries the nine fields \<^verbatim>\<open>String()\<close> prints, each under its
  label and with its current value.
\<close>

theorem Config_never_fails:
  "(\<forall>err. marshal (config bs) = Inl err \<longrightarrow>
       BrowserServer_Config marshal bs = ([LogError err ''failed to marshal config''], ''{}''))
   \<and> (\<forall>s. marshal (config bs) = Inr s \<longrightarrow> BrowserServer_Config marshal bs = ([], s))
   \<and> MLService_Config mls =
       ''ConfigFile: '' @ ConfigFile (mlConfig mls) @
       '', BasePath: '' @ BasePath (mlConfig mls) @
       '', Version: '' @ Version (mlConfig mls) @
       '', ListenAddr: '' @ ListenAddr (mlConfig mls) @
       '', Debug: '' @ (if Debug (mlConfig mls) then ''true'' else ''false'') @
       '', Module: '' @ Module (mlConfig mls) @
       '', Username: '' @ Username (mlConfig mls) @
       '', HomeDir: '' @ HomeDir (mlConfig mls) @
       '', SystemInfo: '' @ SystemInfo (mlConfig mls)"
  by (simp add: BrowserServer_Config_def MLService_Config_def MoLingConfig_String_def fmt_bool_def)

theorem Config_never_fails_witness:
  "failingMarshal (config sampleBrowserServer) = Inl ''json: unsupported value''
   \<and> BrowserServer_Config failingMarshal sampleBrowserServer =
       ([LogError ''json: unsupported value'' ''failed to marshal config''], ''{}'')
   \<and> MLService_Config baseService =
       ''ConfigFile: config/config.json, BasePath: /tmp/.moling, Version: unknown, ListenAddr: , Debug: false, Module: all, Username: , HomeDir: , SystemInfo: ''"
  using Config_never_fails [of failingMarshal sampleBrowserServer baseService]
  by (simp add: failingMarshal_def baseService_def NewMLService_def mlConfigWith_def)

end
